theory Spec2Isabelle
  imports Main
begin

section \<open>Values, errors and keyword arguments\<close>

text \<open>
  The notebook passes Python scalars around: strings, integers and floats. The only
  thing the code does with a float is print it, so a float is carried as the finite
  decimal \<open>m * 10^-e\<close> that Python prints for it in positional notation
  (\<open>0.47\<close> is \<open>PyFloat 47 2\<close>, \<open>563.0\<close> is \<open>PyFloat 563 0\<close>); binary rounding
  is outside the embedding.
\<close>

datatype scalar = PyStr string | PyInt int | PyFloat int nat

text \<open>
  What a feature-store response holds under one feature name: Feast's \<open>to_dict()\<close>
  gives a column (one value per entity row); a flat value is admitted as well, so
  that the embedding says what \<open>feature_vector[name][0]\<close> does on it.
\<close>

datatype pyval = Scalar scalar | Column "scalar list"

text \<open>
  The exceptions the code can raise. \<open>ConnectionError\<close> and \<open>EntityNotFound\<close>
  stand for what a feature-store client raises on its own.
\<close>

datatype error =
    KeyError scalar
  | IndexError string
  | TypeError string
  | ValueError string
  | ConnectionError string
  | EntityNotFound scalar

type_synonym kwargs = "string \<rightharpoonup> scalar"

subsection \<open>Python's \<open>str\<close> on a scalar\<close>

fun str_nat :: "nat \<Rightarrow> string" where
  "str_nat n =
     (if n < 10 then [''0123456789'' ! n]
      else str_nat (n div 10) @ [''0123456789'' ! (n mod 10)])"

declare str_nat.simps [simp del]

definition str_int :: "int \<Rightarrow> string" where
  "str_int i = (if i < 0 then CHR ''-'' # str_nat (nat (- i)) else str_nat (nat i))"

definition str_float :: "int \<Rightarrow> nat \<Rightarrow> string" where
  "str_float m e =
     (let a = nat \<bar>m\<bar>;
          whole = str_nat (a div 10 ^ e);
          digits = str_nat (a mod 10 ^ e);
          frac = (if e = 0 then ''0'' else replicate (e - length digits) CHR ''0'' @ digits)
      in (if m < 0 then ''-'' else '''') @ whole @ ''.'' @ frac)"

fun str :: "scalar \<Rightarrow> string" where
  "str (PyStr s) = s"
| "str (PyInt i) = str_int i"
| "str (PyFloat m e) = str_float m e"

section \<open>Prompt Template\<close>

text \<open>
  The notebook imports \<open>PromptTemplate\<close> from \<open>langchain.prompts\<close>; the class itself is
  not among the files of the notebook. Its two operations used here, \<open>from_template\<close> and
  \<open>format\<close>, follow the spec's Template: ordered text with embedded placeholder names,
  a placeholder being written \<open>{name}\<close> in the pattern.
\<close>

datatype segment = Text string | Placeholder string

type_synonym template = "segment list"

text \<open>
  Modelled from the spec: \<open>PromptTemplate.from_template\<close>, whose code is missing. The
  spec has the template created from a literal pattern string, and the construction fail
  when the pattern is malformed (unbalanced placeholder delimiters).
  \<open>outside\<close> scans literal text, \<open>inside\<close> a placeholder name.
\<close>

fun outside :: "string \<Rightarrow> template option"
  and inside :: "string \<Rightarrow> template option" where
  "outside [] = Some []"
| "outside (c # cs) =
     (if c = CHR ''{'' then inside cs
      else if c = CHR ''}'' then None
      else (case outside cs of
              None \<Rightarrow> None
            | Some (Text s # segs) \<Rightarrow> Some (Text (c # s) # segs)
            | Some segs \<Rightarrow> Some (Text [c] # segs)))"
| "inside [] = None"
| "inside (c # cs) =
     (if c = CHR ''}'' then
        (case outside cs of None \<Rightarrow> None | Some segs \<Rightarrow> Some (Placeholder [] # segs))
      else if c = CHR ''{'' then None
      else (case inside cs of
              Some (Placeholder name # segs) \<Rightarrow> Some (Placeholder (c # name) # segs)
            | _ \<Rightarrow> None))"

definition from_template :: "string \<Rightarrow> error + template" where
  "from_template pattern =
     (case outside pattern of
        None \<Rightarrow> Inl (ValueError ''unbalanced placeholder delimiters'')
      | Some segs \<Rightarrow> Inr segs)"

text \<open>The placeholder names of a template, and the pattern text it was built from.\<close>

fun placeholders :: "template \<Rightarrow> string set" where
  "placeholders [] = {}"
| "placeholders (Text s # segs) = placeholders segs"
| "placeholders (Placeholder name # segs) = insert name (placeholders segs)"

fun piece :: "segment \<Rightarrow> string" where
  "piece (Text s) = s"
| "piece (Placeholder name) = ''{'' @ name @ ''}''"

definition pattern_text :: "template \<Rightarrow> string" where
  "pattern_text segs = concat (map piece segs)"

text \<open>
  Modelled from the spec: \<open>PromptTemplate.format\<close>, whose code is missing. The spec has
  \<open>format(mapping)\<close> return the text, fail with a missing-key error if any placeholder in
  the pattern is absent from the mapping, and have no side effects. The placeholders
  are looked up left to right, so the error names the first one without a value.
\<close>

fun PromptTemplate_format :: "template \<Rightarrow> kwargs \<Rightarrow> error + string" where
  "PromptTemplate_format [] kwargs = Inr []"
| "PromptTemplate_format (Text s # segs) kwargs =
     (case PromptTemplate_format segs kwargs of
        Inl e \<Rightarrow> Inl e
      | Inr out \<Rightarrow> Inr (s @ out))"
| "PromptTemplate_format (Placeholder name # segs) kwargs =
     (case kwargs name of
        None \<Rightarrow> Inl (KeyError (PyStr name))
      | Some v \<Rightarrow>
          (case PromptTemplate_format segs kwargs of
             Inl e \<Rightarrow> Inl e
           | Inr out \<Rightarrow> Inr (str v @ out)))"

text \<open>The text a successful \<open>format\<close> is expected to give: each segment filled in.\<close>

fun fill :: "kwargs \<Rightarrow> segment \<Rightarrow> string" where
  "fill kwargs (Text s) = s"
| "fill kwargs (Placeholder name) = (case kwargs name of None \<Rightarrow> [] | Some v \<Rightarrow> str v)"

section \<open>Feature-store adapters\<close>

text \<open>
  Each adapter reads two things it does not own: the prompt built by
  \<open>PromptTemplate.from_template\<close> (the notebook's global \<open>prompt\<close>, or \<open>self.prompt\<close>)
  and the handle of a feature-store client (\<open>store\<close>, \<open>feature_service\<close>, \<open>client\<close>,
  \<open>self._feature_set\<close>). They are the fields \<open>prompt\<close> and \<open>store\<close> of the state a call
  runs in. The third field, \<open>calls\<close>, records in order every call made to an external
  collaborator: a lookup with the entity identifier it was made for, and a call of the
  prompt's \<open>format\<close> with the keyword arguments it received.
\<close>

datatype event = Lookup scalar | TemplateFormat kwargs

record 'fs world =
  prompt :: template
  store :: 'fs
  calls :: "event list"

fun is_Lookup :: "event \<Rightarrow> bool" where
  "is_Lookup (Lookup _) = True"
| "is_Lookup (TemplateFormat _) = False"

fun is_TemplateFormat :: "event \<Rightarrow> bool" where
  "is_TemplateFormat (Lookup _) = False"
| "is_TemplateFormat (TemplateFormat _) = True"

text \<open>\<open>kwargs.pop(key)\<close> and \<open>d[key]\<close> raise KeyError on a missing key.\<close>

definition pop :: "kwargs \<Rightarrow> string \<Rightarrow> error + scalar \<times> kwargs" where
  "pop kwargs key =
     (case kwargs key of
        None \<Rightarrow> Inl (KeyError (PyStr key))
      | Some v \<Rightarrow> Inr (v, kwargs(key := None)))"

definition getitem :: "(string \<rightharpoonup> 'a) \<Rightarrow> string \<Rightarrow> error + 'a" where
  "getitem d key =
     (case d key of
        None \<Rightarrow> Inl (KeyError (PyStr key))
      | Some v \<Rightarrow> Inr v)"

text \<open>
  \<open>x[0]\<close>: the first element of a list, the first character of a string, IndexError when
  either is empty, TypeError on a number (Python's messages, without the quotes around
  the type name).
\<close>

fun subscript0 :: "pyval \<Rightarrow> error + scalar" where
  "subscript0 (Column []) = Inl (IndexError ''list index out of range'')"
| "subscript0 (Column (v # vs)) = Inr v"
| "subscript0 (Scalar (PyStr [])) = Inl (IndexError ''string index out of range'')"
| "subscript0 (Scalar (PyStr (c # cs))) = Inr (PyStr [c])"
| "subscript0 (Scalar (PyInt i)) = Inl (TypeError ''int object is not subscriptable'')"
| "subscript0 (Scalar (PyFloat m e)) = Inl (TypeError ''float object is not subscriptable'')"

definition getitem0 :: "(string \<rightharpoonup> pyval) \<Rightarrow> string \<Rightarrow> error + scalar" where
  "getitem0 d key =
     (case getitem d key of
        Inl e \<Rightarrow> Inl e
      | Inr col \<Rightarrow> subscript0 col)"

subsection \<open>Feast\<close>

text \<open>
  \<open>store.get_online_features(features=..., entity_rows=...).to_dict()\<close>: the Feast client
  is external, so it is the function from the two arguments to the dictionary
  \<open>to_dict()\<close> returns, or to the error the client raises.
\<close>

type_synonym feast_store = "string list \<Rightarrow> kwargs list \<Rightarrow> error + (string \<rightharpoonup> pyval)"

definition feast_intro :: string where
  "feast_intro =
     ''Given the driver's up to date stats, write them note relaying those stats to them.'' @ [CHR 0x0A] @
     ''If they have a conversation rate above .5, give them a compliment. Otherwise, make a silly joke about chickens at the end to make them feel better'' @ [CHR 0x0A] @
     [CHR 0x0A] @
     ''Here are the drivers stats:'' @ [CHR 0x0A] @
     ''Conversation rate: ''"

definition feast_template :: string where
  "feast_template =
     feast_intro @ ''{conv_rate}'' @ [CHR 0x0A] @
     ''Acceptance rate: {acc_rate}'' @ [CHR 0x0A] @
     ''Average Daily Trips: {avg_daily_trips}'' @ [CHR 0x0A] @
     [CHR 0x0A] @
     ''Your response:''"

text \<open>The prompt \<open>from_template\<close> builds from this pattern (see \<open>feast_prompt_built\<close>).\<close>

definition feast_prompt :: template where
  "feast_prompt =
     [Text feast_intro, Placeholder ''conv_rate'',
      Text ([CHR 0x0A] @ ''Acceptance rate: ''), Placeholder ''acc_rate'',
      Text ([CHR 0x0A] @ ''Average Daily Trips: ''), Placeholder ''avg_daily_trips'',
      Text ([CHR 0x0A, CHR 0x0A] @ ''Your response:'')]"

definition feast_features :: "string list" where
  "feast_features =
     [''driver_hourly_stats:conv_rate'',
      ''driver_hourly_stats:acc_rate'',
      ''driver_hourly_stats:avg_daily_trips'']"

definition FeastPromptTemplate_format ::
    "kwargs \<Rightarrow> feast_store world \<Rightarrow> (error + string) \<times> feast_store world" where
  "FeastPromptTemplate_format kwargs w =
     (case pop kwargs ''driver_id'' of
        Inl e \<Rightarrow> (Inl e, w)
      | Inr (driver_id, kwargs) \<Rightarrow>
         (let w = w\<lparr>calls := calls w @ [Lookup driver_id]\<rparr> in
          (case store w feast_features [Map.empty(''driver_id'' \<mapsto> driver_id)] of
             Inl e \<Rightarrow> (Inl e, w)
           | Inr feature_vector \<Rightarrow>
              (case getitem0 feature_vector ''conv_rate'' of
                 Inl e \<Rightarrow> (Inl e, w)
               | Inr conv_rate \<Rightarrow>
                  (let kwargs = kwargs(''conv_rate'' \<mapsto> conv_rate) in
                   (case getitem0 feature_vector ''acc_rate'' of
                      Inl e \<Rightarrow> (Inl e, w)
                    | Inr acc_rate \<Rightarrow>
                       (let kwargs = kwargs(''acc_rate'' \<mapsto> acc_rate) in
                        (case getitem0 feature_vector ''avg_daily_trips'' of
                           Inl e \<Rightarrow> (Inl e, w)
                         | Inr avg_daily_trips \<Rightarrow>
                            (let kwargs = kwargs(''avg_daily_trips'' \<mapsto> avg_daily_trips) in
                             (PromptTemplate_format (prompt w) kwargs,
                              w\<lparr>calls := calls w @ [TemplateFormat kwargs]\<rparr>))))))))))"

subsection \<open>Tecton\<close>

text \<open>\<open>feature_service.get_online_features(join_keys=...).to_dict()\<close>: a flat dictionary.\<close>

type_synonym tecton_feature_service = "kwargs \<Rightarrow> error + (string \<rightharpoonup> scalar)"

definition tecton_intro :: string where
  "tecton_intro =
     ''Given the vendor's up to date transaction stats, write them a note based on the following rules:'' @ [CHR 0x0A] @
     [CHR 0x0A] @
     ''1. If they had a transaction in the last day, write a short congratulations message on their recent sales'' @ [CHR 0x0A] @
     ''2. If no transaction in the last day, but they had a transaction in the last 30 days, playfully encourage them to sell more.'' @ [CHR 0x0A] @
     ''3. Always add a silly joke about chickens at the end'' @ [CHR 0x0A] @
     [CHR 0x0A] @
     ''Here are the vendor's stats:'' @ [CHR 0x0A] @
     ''Number of Transactions Last Day: ''"

definition tecton_template :: string where
  "tecton_template =
     tecton_intro @ ''{transaction_count_1d}'' @ [CHR 0x0A] @
     ''Number of Transactions Last 30 Days: {transaction_count_30d}'' @ [CHR 0x0A] @
     [CHR 0x0A] @
     ''Your response:''"

definition tecton_prompt :: template where
  "tecton_prompt =
     [Text tecton_intro, Placeholder ''transaction_count_1d'',
      Text ([CHR 0x0A] @ ''Number of Transactions Last 30 Days: ''),
      Placeholder ''transaction_count_30d'',
      Text ([CHR 0x0A, CHR 0x0A] @ ''Your response:'')]"

definition TectonPromptTemplate_format ::
    "kwargs \<Rightarrow> tecton_feature_service world \<Rightarrow> (error + string) \<times> tecton_feature_service world" where
  "TectonPromptTemplate_format kwargs w =
     (case pop kwargs ''user_id'' of
        Inl e \<Rightarrow> (Inl e, w)
      | Inr (user_id, kwargs) \<Rightarrow>
         (let w = w\<lparr>calls := calls w @ [Lookup user_id]\<rparr> in
          (case store w (Map.empty(''user_id'' \<mapsto> user_id)) of
             Inl e \<Rightarrow> (Inl e, w)
           | Inr feature_vector \<Rightarrow>
              (case getitem feature_vector ''user_transaction_counts.transaction_count_1d_1d'' of
                 Inl e \<Rightarrow> (Inl e, w)
               | Inr count_1d \<Rightarrow>
                  (let kwargs = kwargs(''transaction_count_1d'' \<mapsto> count_1d) in
                   (case getitem feature_vector ''user_transaction_counts.transaction_count_30d_1d'' of
                      Inl e \<Rightarrow> (Inl e, w)
                    | Inr count_30d \<Rightarrow>
                       (let kwargs = kwargs(''transaction_count_30d'' \<mapsto> count_30d) in
                        (PromptTemplate_format (prompt w) kwargs,
                         w\<lparr>calls := calls w @ [TemplateFormat kwargs]\<rparr>))))))))"

subsection \<open>Featureform\<close>

text \<open>\<open>client.features(features, entities)\<close>: the values of the requested features.\<close>

type_synonym featureform_client = "(string \<times> string) list \<Rightarrow> kwargs \<Rightarrow> error + scalar list"

definition featureform_intro :: string where
  "featureform_intro =
     ''Given the amount a user spends on average per transaction, let them know if they are a high roller. Otherwise, make a silly joke about chickens at the end to make them feel better'' @ [CHR 0x0A] @
     [CHR 0x0A] @
     ''Here are the user's stats:'' @ [CHR 0x0A] @
     ''Average Amount per Transaction: $''"

definition featureform_template :: string where
  "featureform_template =
     featureform_intro @ ''{avg_transcation}'' @ [CHR 0x0A] @
     [CHR 0x0A] @
     ''Your response:''"

definition featureform_prompt :: template where
  "featureform_prompt =
     [Text featureform_intro, Placeholder ''avg_transcation'',
      Text ([CHR 0x0A, CHR 0x0A] @ ''Your response:'')]"

definition FeatureformPromptTemplate_format ::
    "kwargs \<Rightarrow> featureform_client world \<Rightarrow> (error + string) \<times> featureform_client world" where
  "FeatureformPromptTemplate_format kwargs w =
     (case pop kwargs ''user_id'' of
        Inl e \<Rightarrow> (Inl e, w)
      | Inr (user_id, kwargs) \<Rightarrow>
         (let w = w\<lparr>calls := calls w @ [Lookup user_id]\<rparr> in
          (case store w [(''avg_transactions'', ''quickstart'')] (Map.empty(''user'' \<mapsto> user_id)) of
             Inl e \<Rightarrow> (Inl e, w)
           | Inr fpf \<Rightarrow>
              (PromptTemplate_format (prompt w) kwargs,
               w\<lparr>calls := calls w @ [TemplateFormat kwargs]\<rparr>))))"

subsection \<open>AzureML managed feature store\<close>

text \<open>
  A pandas DataFrame is its columns by name; \<open>df[name][0]\<close> raises KeyError for a missing
  column and for a column without row \<open>0\<close>. \<open>get_online_features(features, obs)\<close> maps the
  frame of observations to the frame of feature values, or raises.
\<close>

type_synonym dataframe = "string \<rightharpoonup> scalar list"

type_synonym azureml_feature_set = "dataframe \<Rightarrow> error + dataframe"

definition row0 :: "dataframe \<Rightarrow> string \<Rightarrow> error + scalar" where
  "row0 df name =
     (case getitem df name of
        Inl e \<Rightarrow> Inl e
      | Inr [] \<Rightarrow> Inl (KeyError (PyInt 0))
      | Inr (v # vs) \<Rightarrow> Inr v)"

definition azureml_indent :: string where
  "azureml_indent = ''            ''"

definition azureml_template :: string where
  "azureml_template =
     [CHR 0x0A] @
     azureml_indent @ ''{query}'' @ [CHR 0x0A] @
     azureml_indent @ ''###'' @ [CHR 0x0A] @
     azureml_indent @ ''account id = {account_id}'' @ [CHR 0x0A] @
     azureml_indent @ ''account age = {account_age}'' @ [CHR 0x0A] @
     azureml_indent @ ''account country = {account_country}'' @ [CHR 0x0A] @
     azureml_indent @ ''payment rejects 1d per user = {payment_rejects_1d_per_user}'' @ [CHR 0x0A] @
     azureml_indent @ ''###'' @ [CHR 0x0A] @
     azureml_indent"

definition azureml_prompt :: template where
  "azureml_prompt =
     [Text ([CHR 0x0A] @ azureml_indent), Placeholder ''query'',
      Text ([CHR 0x0A] @ azureml_indent @ ''###'' @ [CHR 0x0A] @ azureml_indent @ ''account id = ''),
      Placeholder ''account_id'',
      Text ([CHR 0x0A] @ azureml_indent @ ''account age = ''), Placeholder ''account_age'',
      Text ([CHR 0x0A] @ azureml_indent @ ''account country = ''), Placeholder ''account_country'',
      Text ([CHR 0x0A] @ azureml_indent @ ''payment rejects 1d per user = ''),
      Placeholder ''payment_rejects_1d_per_user'',
      Text ([CHR 0x0A] @ azureml_indent @ ''###'' @ [CHR 0x0A] @ azureml_indent)]"

text \<open>
  \<open>raise\<close> of a string is itself a TypeError in Python 3 (exceptions must derive from
  BaseException): that is the error a call without \<open>account_id\<close> ends with.
\<close>

definition AzureMLFeatureStorePromptTemplate_format ::
    "kwargs \<Rightarrow> azureml_feature_set world \<Rightarrow> (error + string) \<times> azureml_feature_set world" where
  "AzureMLFeatureStorePromptTemplate_format kwargs w =
     (if kwargs ''account_id'' = None then
        (Inl (TypeError ''exceptions must derive from BaseException''), w)
      else
        (case pop kwargs ''account_id'' of
           Inl e \<Rightarrow> (Inl e, w)
         | Inr (account_id, kwargs) \<Rightarrow>
            (let (query, kwargs) =
                   (case kwargs ''query'' of
                      None \<Rightarrow> (PyStr [], kwargs)
                    | Some q \<Rightarrow> (q, kwargs(''query'' := None)));
                 obs = Map.empty(''accountID'' \<mapsto> [account_id]);
                 w = w\<lparr>calls := calls w @ [Lookup account_id]\<rparr>
             in (case store w obs of
                   Inl e \<Rightarrow> (Inl e, w)
                 | Inr df \<Rightarrow>
                    (let kwargs = kwargs(''query'' \<mapsto> query);
                         kwargs = kwargs(''account_id'' \<mapsto> account_id)
                     in (case row0 df ''accountAge'' of
                           Inl e \<Rightarrow> (Inl e, w)
                         | Inr account_age \<Rightarrow>
                            (let kwargs = kwargs(''account_age'' \<mapsto> account_age) in
                             (case row0 df ''accountCountry'' of
                                Inl e \<Rightarrow> (Inl e, w)
                              | Inr account_country \<Rightarrow>
                                 (let kwargs = kwargs(''account_country'' \<mapsto> account_country) in
                                  (case row0 df ''numPaymentRejects1dPerUser'' of
                                     Inl e \<Rightarrow> (Inl e, w)
                                   | Inr rejects \<Rightarrow>
                                      (let kwargs = kwargs(''payment_rejects_1d_per_user'' \<mapsto> rejects) in
                                       (PromptTemplate_format (prompt w) kwargs,
                                        w\<lparr>calls := calls w @ [TemplateFormat kwargs]\<rparr>))))))))))))"

section \<open>Example stores\<close>

text \<open>
  Stand-ins for the external feature stores, used to run the adapters on concrete
  inputs. \<open>driver_stats_columns\<close> answers as Feast's \<open>to_dict()\<close> does, one column per
  feature with one value per entity row; \<open>driver_stats_flat\<close> gives the same three
  values as a flat record; \<open>driver_1001_only\<close> knows a single driver.
\<close>

definition driver_stats_columns :: feast_store where
  "driver_stats_columns features entity_rows =
     Inr (Map.empty(''conv_rate'' \<mapsto> Column [PyFloat 47 2],
                    ''acc_rate'' \<mapsto> Column [PyFloat 6 2],
                    ''avg_daily_trips'' \<mapsto> Column [PyInt 936]))"

definition driver_stats_flat :: feast_store where
  "driver_stats_flat features entity_rows =
     Inr (Map.empty(''conv_rate'' \<mapsto> Scalar (PyFloat 47 2),
                    ''acc_rate'' \<mapsto> Scalar (PyFloat 6 2),
                    ''avg_daily_trips'' \<mapsto> Scalar (PyInt 936)))"

definition driver_1001_only :: feast_store where
  "driver_1001_only features entity_rows =
     (case entity_rows of
        [row] \<Rightarrow>
          (if row ''driver_id'' = Some (PyInt 1001) then driver_stats_columns features entity_rows
           else Inl (EntityNotFound (PyStr ''driver_id'')))
      | _ \<Rightarrow> Inl (ValueError ''one entity row expected''))"

definition feast_unreachable :: feast_store where
  "feast_unreachable features entity_rows = Inl (ConnectionError ''feature server unreachable'')"

definition user_transaction_counts :: tecton_feature_service where
  "user_transaction_counts join_keys =
     Inr (Map.empty(''user_transaction_counts.transaction_count_1d_1d'' \<mapsto> PyInt 657,
                    ''user_transaction_counts.transaction_count_30d_1d'' \<mapsto> PyInt 20326))"

definition tecton_unreachable :: tecton_feature_service where
  "tecton_unreachable join_keys = Inl (ConnectionError ''feature server unreachable'')"

definition featureform_quickstart :: featureform_client where
  "featureform_quickstart features entities = Inr [PyFloat 25 0]"

definition featureform_unreachable :: featureform_client where
  "featureform_unreachable features entities = Inl (ConnectionError ''feature server unreachable'')"

definition accounts_frame :: azureml_feature_set where
  "accounts_frame obs =
     Inr (Map.empty(''accountAge'' \<mapsto> [PyFloat 563 0],
                    ''accountCountry'' \<mapsto> [PyStr ''GB''],
                    ''numPaymentRejects1dPerUser'' \<mapsto> [PyFloat 15 0]))"

definition azureml_unreachable :: azureml_feature_set where
  "azureml_unreachable obs = Inl (ConnectionError ''feature server unreachable'')"

section \<open>Properties of the Prompt Template\<close>

text \<open>A pattern that \<open>from_template\<close> accepts is the text of the template it builds.\<close>

lemma outside_inside_pattern:
  "outside cs = Some T \<Longrightarrow> concat (map piece T) = cs"
  "inside cs = Some T \<Longrightarrow>
     \<exists>name segs. T = Placeholder name # segs \<and> name @ CHR ''}'' # concat (map piece segs) = cs"
proof (induction cs and cs arbitrary: T and T rule: outside_inside.induct)
  case 1
  then show ?case by simp
next
  case (2 c cs)
  then show ?case
    by (auto split: if_splits option.splits list.splits segment.splits)
next
  case 3
  then show ?case by simp
next
  case (4 c cs)
  then show ?case
    by (auto split: if_splits option.splits list.splits segment.splits)
qed

lemma from_template_pattern_text:
  "from_template pattern = Inr T \<Longrightarrow> pattern_text T = pattern"
  by (auto simp: from_template_def pattern_text_def outside_inside_pattern(1) split: option.splits)

lemma format_missing:
  "\<not> placeholders T \<subseteq> dom M \<Longrightarrow>
     \<exists>name. name \<in> placeholders T \<and> name \<notin> dom M \<and>
            PromptTemplate_format T M = Inl (KeyError (PyStr name))"
proof (induction T M rule: PromptTemplate_format.induct)
  case (1 kwargs)
  then show ?case by simp
next
  case (2 s segs kwargs)
  then obtain name where "name \<in> placeholders segs" "name \<notin> dom kwargs"
      "PromptTemplate_format segs kwargs = Inl (KeyError (PyStr name))"
    by auto
  then show ?case by auto
next
  case (3 name segs kwargs)
  show ?case
  proof (cases "kwargs name")
    case None
    then show ?thesis by auto
  next
    case (Some v)
    with "3.prems" have "\<not> placeholders segs \<subseteq> dom kwargs" by auto
    with "3.IH" [OF Some] obtain name' where "name' \<in> placeholders segs" "name' \<notin> dom kwargs"
        "PromptTemplate_format segs kwargs = Inl (KeyError (PyStr name'))"
      by blast
    with Some show ?thesis by auto
  qed
qed

lemma format_present:
  "placeholders T \<subseteq> dom M \<Longrightarrow> PromptTemplate_format T M = Inr (concat (map (fill M) T))"
  by (induction T M rule: PromptTemplate_format.induct) (auto split: sum.splits option.splits)

text \<open>
  C2. Whenever some placeholder of the template has no value in the mapping, \<open>format\<close>
  fails with the missing-key error of a placeholder that is absent, and the result is
  that error alone: no text, partial or complete, is returned.
\<close>

theorem format_missing_key:
  assumes "\<not> placeholders T \<subseteq> dom M"
  shows "(\<exists>name. name \<in> placeholders T \<and> name \<notin> dom M \<and>
                PromptTemplate_format T M = Inl (KeyError (PyStr name))) \<and>
         (\<forall>out. PromptTemplate_format T M \<noteq> Inr out)"
proof -
  from format_missing [OF assms] obtain name where
    n: "name \<in> placeholders T" "name \<notin> dom M"
       "PromptTemplate_format T M = Inl (KeyError (PyStr name))"
    by blast
  then show ?thesis by auto
qed

theorem format_missing_key_witness:
  "\<not> placeholders [Text ''Dear '', Placeholder ''name'', Text '', you made '', Placeholder ''trips'']
       \<subseteq> dom (Map.empty(''name'' \<mapsto> PyStr ''Ann'')) \<and>
   PromptTemplate_format
       [Text ''Dear '', Placeholder ''name'', Text '', you made '', Placeholder ''trips'']
       (Map.empty(''name'' \<mapsto> PyStr ''Ann'')) = Inl (KeyError (PyStr ''trips''))"
proof -
  have h: "\<not> placeholders [Text ''Dear '', Placeholder ''name'', Text '', you made '', Placeholder ''trips'']
       \<subseteq> dom (Map.empty(''name'' \<mapsto> PyStr ''Ann''))"
    by simp
  show ?thesis using h format_missing_key [OF h] by simp
qed

text \<open>
  C3. Whenever every placeholder of the template has a value in the mapping, \<open>format\<close>
  succeeds. The pattern is the concatenation of the template's segments as written
  (\<open>piece\<close>), and the output is the concatenation of the same segments with each
  placeholder replaced by \<open>str\<close> of its value and the text segments kept as they are
  (\<open>fill\<close>).
\<close>

theorem format_fills_every_placeholder:
  assumes "from_template pattern = Inr T" and "placeholders T \<subseteq> dom M"
  shows "pattern = concat (map piece T) \<and>
         PromptTemplate_format T M = Inr (concat (map (fill M) T))"
  using from_template_pattern_text [OF assms(1)] format_present [OF assms(2)]
  by (simp add: pattern_text_def)

theorem format_fills_every_placeholder_witness:
  "from_template ''Dear {name}, you made {trips} trips. Bye {name}'' =
     Inr [Text ''Dear '', Placeholder ''name'', Text '', you made '', Placeholder ''trips'',
          Text '' trips. Bye '', Placeholder ''name''] \<and>
   placeholders [Text ''Dear '', Placeholder ''name'', Text '', you made '', Placeholder ''trips'',
          Text '' trips. Bye '', Placeholder ''name'']
     \<subseteq> dom (Map.empty(''name'' \<mapsto> PyStr ''Ann'', ''trips'' \<mapsto> PyInt 936)) \<and>
   PromptTemplate_format
       [Text ''Dear '', Placeholder ''name'', Text '', you made '', Placeholder ''trips'',
          Text '' trips. Bye '', Placeholder ''name'']
       (Map.empty(''name'' \<mapsto> PyStr ''Ann'', ''trips'' \<mapsto> PyInt 936)) =
     Inr ''Dear Ann, you made 936 trips. Bye Ann''"
proof -
  have h1: "from_template ''Dear {name}, you made {trips} trips. Bye {name}'' =
     Inr [Text ''Dear '', Placeholder ''name'', Text '', you made '', Placeholder ''trips'',
          Text '' trips. Bye '', Placeholder ''name'']"
    by (simp add: from_template_def)
  have h2: "placeholders [Text ''Dear '', Placeholder ''name'', Text '', you made '', Placeholder ''trips'',
          Text '' trips. Bye '', Placeholder ''name'']
     \<subseteq> dom (Map.empty(''name'' \<mapsto> PyStr ''Ann'', ''trips'' \<mapsto> PyInt 936))"
    by simp
  from format_fills_every_placeholder [OF h1 h2]
  have out: "PromptTemplate_format
       [Text ''Dear '', Placeholder ''name'', Text '', you made '', Placeholder ''trips'',
          Text '' trips. Bye '', Placeholder ''name'']
       (Map.empty(''name'' \<mapsto> PyStr ''Ann'', ''trips'' \<mapsto> PyInt 936)) =
     Inr ''Dear Ann, you made 936 trips. Bye Ann''"
    by (simp add: str_int_def str_nat.simps)
  from h1 h2 out show ?thesis by (intro conjI)
qed

section \<open>The prompts of the notebook\<close>

lemma feast_prompt_built: "from_template feast_template = Inr feast_prompt"
  by (simp add: from_template_def feast_template_def feast_prompt_def feast_intro_def)

lemma tecton_prompt_built: "from_template tecton_template = Inr tecton_prompt"
  by (simp add: from_template_def tecton_template_def tecton_prompt_def tecton_intro_def)

lemma featureform_prompt_built: "from_template featureform_template = Inr featureform_prompt"
  by (simp add: from_template_def featureform_template_def featureform_prompt_def
        featureform_intro_def)

lemma azureml_prompt_built: "from_template azureml_template = Inr azureml_prompt"
  by (simp add: from_template_def azureml_template_def azureml_prompt_def azureml_indent_def)

lemma feast_format_prompt:
  "PromptTemplate_format feast_prompt
     (kwargs(''conv_rate'' \<mapsto> c, ''acc_rate'' \<mapsto> a, ''avg_daily_trips'' \<mapsto> t)) =
   Inr (feast_intro @ str c @ [CHR 0x0A] @ ''Acceptance rate: '' @ str a @ [CHR 0x0A] @
        ''Average Daily Trips: '' @ str t @ [CHR 0x0A, CHR 0x0A] @ ''Your response:'')"
  by (simp add: feast_prompt_def)

section \<open>Properties of the adapters\<close>

text \<open>
  C1. A call without the entity identifier key fails at once: Feast, Tecton and
  Featureform raise the KeyError of \<open>kwargs.pop\<close>, AzureML the TypeError of its guard.
  The state is returned as it was, so no lookup (and no other call) was made.
\<close>

theorem format_without_entity_id:
  "(kwargs ''driver_id'' = None \<longrightarrow>
      FeastPromptTemplate_format kwargs w_feast =
        (Inl (KeyError (PyStr ''driver_id'')), w_feast)) \<and>
   (kwargs ''user_id'' = None \<longrightarrow>
      TectonPromptTemplate_format kwargs w_tecton =
        (Inl (KeyError (PyStr ''user_id'')), w_tecton)) \<and>
   (kwargs ''user_id'' = None \<longrightarrow>
      FeatureformPromptTemplate_format kwargs w_featureform =
        (Inl (KeyError (PyStr ''user_id'')), w_featureform)) \<and>
   (kwargs ''account_id'' = None \<longrightarrow>
      AzureMLFeatureStorePromptTemplate_format kwargs w_azureml =
        (Inl (TypeError ''exceptions must derive from BaseException''), w_azureml))"
  by (simp add: FeastPromptTemplate_format_def TectonPromptTemplate_format_def
        FeatureformPromptTemplate_format_def AzureMLFeatureStorePromptTemplate_format_def pop_def)

theorem format_without_entity_id_witness:
  "(Map.empty(''query'' \<mapsto> PyStr ''hello'')) ''driver_id'' = None \<and>
   (Map.empty(''query'' \<mapsto> PyStr ''hello'')) ''user_id'' = None \<and>
   (Map.empty(''query'' \<mapsto> PyStr ''hello'')) ''account_id'' = None \<and>
   FeastPromptTemplate_format (Map.empty(''query'' \<mapsto> PyStr ''hello''))
       \<lparr>prompt = feast_prompt, store = driver_stats_columns, calls = []\<rparr> =
     (Inl (KeyError (PyStr ''driver_id'')),
      \<lparr>prompt = feast_prompt, store = driver_stats_columns, calls = []\<rparr>) \<and>
   TectonPromptTemplate_format (Map.empty(''query'' \<mapsto> PyStr ''hello''))
       \<lparr>prompt = tecton_prompt, store = user_transaction_counts, calls = []\<rparr> =
     (Inl (KeyError (PyStr ''user_id'')),
      \<lparr>prompt = tecton_prompt, store = user_transaction_counts, calls = []\<rparr>) \<and>
   FeatureformPromptTemplate_format (Map.empty(''query'' \<mapsto> PyStr ''hello''))
       \<lparr>prompt = featureform_prompt, store = featureform_quickstart, calls = []\<rparr> =
     (Inl (KeyError (PyStr ''user_id'')),
      \<lparr>prompt = featureform_prompt, store = featureform_quickstart, calls = []\<rparr>) \<and>
   AzureMLFeatureStorePromptTemplate_format (Map.empty(''query'' \<mapsto> PyStr ''hello''))
       \<lparr>prompt = azureml_prompt, store = accounts_frame, calls = []\<rparr> =
     (Inl (TypeError ''exceptions must derive from BaseException''),
      \<lparr>prompt = azureml_prompt, store = accounts_frame, calls = []\<rparr>)"
  using format_without_entity_id
    [of "Map.empty(''query'' \<mapsto> PyStr ''hello'')"
        "\<lparr>prompt = feast_prompt, store = driver_stats_columns, calls = []\<rparr>"
        "\<lparr>prompt = tecton_prompt, store = user_transaction_counts, calls = []\<rparr>"
        "\<lparr>prompt = featureform_prompt, store = featureform_quickstart, calls = []\<rparr>"
        "\<lparr>prompt = azureml_prompt, store = accounts_frame, calls = []\<rparr>"]
  by simp

lemma feast_lookup_fails:
  "kwargs ''driver_id'' = Some driver_id \<Longrightarrow>
   store w feast_features [Map.empty(''driver_id'' \<mapsto> driver_id)] = Inl e \<Longrightarrow>
   FeastPromptTemplate_format kwargs w = (Inl e, w\<lparr>calls := calls w @ [Lookup driver_id]\<rparr>)"
  by (simp add: FeastPromptTemplate_format_def pop_def)

lemma tecton_lookup_fails:
  "kwargs ''user_id'' = Some user_id \<Longrightarrow>
   store w (Map.empty(''user_id'' \<mapsto> user_id)) = Inl e \<Longrightarrow>
   TectonPromptTemplate_format kwargs w = (Inl e, w\<lparr>calls := calls w @ [Lookup user_id]\<rparr>)"
  by (simp add: TectonPromptTemplate_format_def pop_def)

lemma featureform_lookup_fails:
  "kwargs ''user_id'' = Some user_id \<Longrightarrow>
   store w [(''avg_transactions'', ''quickstart'')] (Map.empty(''user'' \<mapsto> user_id)) = Inl e \<Longrightarrow>
   FeatureformPromptTemplate_format kwargs w =
     (Inl e, w\<lparr>calls := calls w @ [Lookup user_id]\<rparr>)"
  by (simp add: FeatureformPromptTemplate_format_def pop_def)

lemma azureml_lookup_fails:
  "kwargs ''account_id'' = Some account_id \<Longrightarrow>
   store w (Map.empty(''accountID'' \<mapsto> [account_id])) = Inl e \<Longrightarrow>
   AzureMLFeatureStorePromptTemplate_format kwargs w =
     (Inl e, w\<lparr>calls := calls w @ [Lookup account_id]\<rparr>)"
  by (simp add: AzureMLFeatureStorePromptTemplate_format_def pop_def split: option.splits)

text \<open>
  C4. When the lookup made for a present entity identifier fails, \<open>format\<close> fails with
  the lookup's error and the only call it has made is that lookup: the prompt's
  \<open>format\<close> is not called, so no text is produced.
\<close>

theorem lookup_failure_skips_template:
  "(kwargs ''driver_id'' = Some entity_id \<and>
    store w_feast feast_features [Map.empty(''driver_id'' \<mapsto> entity_id)] = Inl e \<longrightarrow>
      FeastPromptTemplate_format kwargs w_feast =
        (Inl e, w_feast\<lparr>calls := calls w_feast @ [Lookup entity_id]\<rparr>) \<and>
      filter is_TemplateFormat (calls (snd (FeastPromptTemplate_format kwargs w_feast))) =
        filter is_TemplateFormat (calls w_feast)) \<and>
   (kwargs ''user_id'' = Some entity_id \<and>
    store w_tecton (Map.empty(''user_id'' \<mapsto> entity_id)) = Inl e \<longrightarrow>
      TectonPromptTemplate_format kwargs w_tecton =
        (Inl e, w_tecton\<lparr>calls := calls w_tecton @ [Lookup entity_id]\<rparr>) \<and>
      filter is_TemplateFormat (calls (snd (TectonPromptTemplate_format kwargs w_tecton))) =
        filter is_TemplateFormat (calls w_tecton)) \<and>
   (kwargs ''user_id'' = Some entity_id \<and>
    store w_featureform [(''avg_transactions'', ''quickstart'')]
      (Map.empty(''user'' \<mapsto> entity_id)) = Inl e \<longrightarrow>
      FeatureformPromptTemplate_format kwargs w_featureform =
        (Inl e, w_featureform\<lparr>calls := calls w_featureform @ [Lookup entity_id]\<rparr>) \<and>
      filter is_TemplateFormat
          (calls (snd (FeatureformPromptTemplate_format kwargs w_featureform))) =
        filter is_TemplateFormat (calls w_featureform)) \<and>
   (kwargs ''account_id'' = Some entity_id \<and>
    store w_azureml (Map.empty(''accountID'' \<mapsto> [entity_id])) = Inl e \<longrightarrow>
      AzureMLFeatureStorePromptTemplate_format kwargs w_azureml =
        (Inl e, w_azureml\<lparr>calls := calls w_azureml @ [Lookup entity_id]\<rparr>) \<and>
      filter is_TemplateFormat
          (calls (snd (AzureMLFeatureStorePromptTemplate_format kwargs w_azureml))) =
        filter is_TemplateFormat (calls w_azureml))"
  by (simp add: feast_lookup_fails tecton_lookup_fails featureform_lookup_fails
        azureml_lookup_fails)

theorem lookup_failure_skips_template_witness:
  "(Map.empty(''driver_id'' \<mapsto> PyInt 1001, ''user_id'' \<mapsto> PyInt 1001, ''account_id'' \<mapsto> PyInt 1001)) ''driver_id'' = Some (PyInt 1001) \<and>
   feast_unreachable feast_features [Map.empty(''driver_id'' \<mapsto> PyInt 1001)] =
     Inl (ConnectionError ''feature server unreachable'') \<and>
   FeastPromptTemplate_format (Map.empty(''driver_id'' \<mapsto> PyInt 1001, ''user_id'' \<mapsto> PyInt 1001, ''account_id'' \<mapsto> PyInt 1001))
       \<lparr>prompt = feast_prompt, store = feast_unreachable, calls = []\<rparr> =
     (Inl (ConnectionError ''feature server unreachable''),
      \<lparr>prompt = feast_prompt, store = feast_unreachable, calls = [Lookup (PyInt 1001)]\<rparr>) \<and>
   (Map.empty(''driver_id'' \<mapsto> PyInt 1001, ''user_id'' \<mapsto> PyInt 1001, ''account_id'' \<mapsto> PyInt 1001)) ''user_id'' = Some (PyInt 1001) \<and>
   tecton_unreachable (Map.empty(''user_id'' \<mapsto> PyInt 1001)) =
     Inl (ConnectionError ''feature server unreachable'') \<and>
   TectonPromptTemplate_format (Map.empty(''driver_id'' \<mapsto> PyInt 1001, ''user_id'' \<mapsto> PyInt 1001, ''account_id'' \<mapsto> PyInt 1001))
       \<lparr>prompt = tecton_prompt, store = tecton_unreachable, calls = []\<rparr> =
     (Inl (ConnectionError ''feature server unreachable''),
      \<lparr>prompt = tecton_prompt, store = tecton_unreachable, calls = [Lookup (PyInt 1001)]\<rparr>) \<and>
   (Map.empty(''driver_id'' \<mapsto> PyInt 1001, ''user_id'' \<mapsto> PyInt 1001, ''account_id'' \<mapsto> PyInt 1001)) ''user_id'' = Some (PyInt 1001) \<and>
   featureform_unreachable [(''avg_transactions'', ''quickstart'')] (Map.empty(''user'' \<mapsto> PyInt 1001)) =
     Inl (ConnectionError ''feature server unreachable'') \<and>
   FeatureformPromptTemplate_format (Map.empty(''driver_id'' \<mapsto> PyInt 1001, ''user_id'' \<mapsto> PyInt 1001, ''account_id'' \<mapsto> PyInt 1001))
       \<lparr>prompt = featureform_prompt, store = featureform_unreachable, calls = []\<rparr> =
     (Inl (ConnectionError ''feature server unreachable''),
      \<lparr>prompt = featureform_prompt, store = featureform_unreachable, calls = [Lookup (PyInt 1001)]\<rparr>) \<and>
   (Map.empty(''driver_id'' \<mapsto> PyInt 1001, ''user_id'' \<mapsto> PyInt 1001, ''account_id'' \<mapsto> PyInt 1001)) ''account_id'' = Some (PyInt 1001) \<and>
   azureml_unreachable (Map.empty(''accountID'' \<mapsto> [PyInt 1001])) =
     Inl (ConnectionError ''feature server unreachable'') \<and>
   AzureMLFeatureStorePromptTemplate_format (Map.empty(''driver_id'' \<mapsto> PyInt 1001, ''user_id'' \<mapsto> PyInt 1001, ''account_id'' \<mapsto> PyInt 1001))
       \<lparr>prompt = azureml_prompt, store = azureml_unreachable, calls = []\<rparr> =
     (Inl (ConnectionError ''feature server unreachable''),
      \<lparr>prompt = azureml_prompt, store = azureml_unreachable, calls = [Lookup (PyInt 1001)]\<rparr>)"
  using lookup_failure_skips_template
    [of "(Map.empty(''driver_id'' \<mapsto> PyInt 1001, ''user_id'' \<mapsto> PyInt 1001, ''account_id'' \<mapsto> PyInt 1001))" "PyInt 1001"
        "\<lparr>prompt = feast_prompt, store = feast_unreachable, calls = []\<rparr>"
        "ConnectionError ''feature server unreachable''"
        "\<lparr>prompt = tecton_prompt, store = tecton_unreachable, calls = []\<rparr>"
        "\<lparr>prompt = featureform_prompt, store = featureform_unreachable, calls = []\<rparr>"
        "\<lparr>prompt = azureml_prompt, store = azureml_unreachable, calls = []\<rparr>"]
  by (simp add: feast_unreachable_def tecton_unreachable_def featureform_unreachable_def
        azureml_unreachable_def)

lemma feast_lookups:
  "kwargs ''driver_id'' = Some driver_id \<Longrightarrow>
   filter is_Lookup (calls (snd (FeastPromptTemplate_format kwargs w))) =
     filter is_Lookup (calls w) @ [Lookup driver_id]"
  by (simp add: FeastPromptTemplate_format_def pop_def Let_def split: sum.splits)

lemma tecton_lookups:
  "kwargs ''user_id'' = Some user_id \<Longrightarrow>
   filter is_Lookup (calls (snd (TectonPromptTemplate_format kwargs w))) =
     filter is_Lookup (calls w) @ [Lookup user_id]"
  by (simp add: TectonPromptTemplate_format_def pop_def Let_def split: sum.splits)

lemma featureform_lookups:
  "kwargs ''user_id'' = Some user_id \<Longrightarrow>
   filter is_Lookup (calls (snd (FeatureformPromptTemplate_format kwargs w))) =
     filter is_Lookup (calls w) @ [Lookup user_id]"
  by (simp add: FeatureformPromptTemplate_format_def pop_def Let_def split: sum.splits)

lemma azureml_lookups:
  "kwargs ''account_id'' = Some account_id \<Longrightarrow>
   filter is_Lookup (calls (snd (AzureMLFeatureStorePromptTemplate_format kwargs w))) =
     filter is_Lookup (calls w) @ [Lookup account_id]"
  by (simp add: AzureMLFeatureStorePromptTemplate_format_def pop_def Let_def
           split: sum.splits option.splits)

text \<open>
  C7. A call with the entity identifier present adds exactly one lookup to the calls
  made, the one for that identifier, whether the lookup succeeds or fails; and when
  the lookup fails, the error \<open>format\<close> ends with is the lookup's own.
\<close>

theorem lookup_exactly_once:
  "(kwargs ''driver_id'' = Some entity_id \<longrightarrow>
      filter is_Lookup (calls (snd (FeastPromptTemplate_format kwargs w_feast))) =
        filter is_Lookup (calls w_feast) @ [Lookup entity_id] \<and>
      (\<forall>e. store w_feast feast_features [Map.empty(''driver_id'' \<mapsto> entity_id)] = Inl e \<longrightarrow>
           fst (FeastPromptTemplate_format kwargs w_feast) = Inl e)) \<and>
   (kwargs ''user_id'' = Some entity_id \<longrightarrow>
      filter is_Lookup (calls (snd (TectonPromptTemplate_format kwargs w_tecton))) =
        filter is_Lookup (calls w_tecton) @ [Lookup entity_id] \<and>
      (\<forall>e. store w_tecton (Map.empty(''user_id'' \<mapsto> entity_id)) = Inl e \<longrightarrow>
           fst (TectonPromptTemplate_format kwargs w_tecton) = Inl e)) \<and>
   (kwargs ''user_id'' = Some entity_id \<longrightarrow>
      filter is_Lookup (calls (snd (FeatureformPromptTemplate_format kwargs w_featureform))) =
        filter is_Lookup (calls w_featureform) @ [Lookup entity_id] \<and>
      (\<forall>e. store w_featureform [(''avg_transactions'', ''quickstart'')]
             (Map.empty(''user'' \<mapsto> entity_id)) = Inl e \<longrightarrow>
           fst (FeatureformPromptTemplate_format kwargs w_featureform) = Inl e)) \<and>
   (kwargs ''account_id'' = Some entity_id \<longrightarrow>
      filter is_Lookup (calls (snd (AzureMLFeatureStorePromptTemplate_format kwargs w_azureml))) =
        filter is_Lookup (calls w_azureml) @ [Lookup entity_id] \<and>
      (\<forall>e. store w_azureml (Map.empty(''accountID'' \<mapsto> [entity_id])) = Inl e \<longrightarrow>
           fst (AzureMLFeatureStorePromptTemplate_format kwargs w_azureml) = Inl e))"
  by (simp add: feast_lookups tecton_lookups featureform_lookups azureml_lookups
        feast_lookup_fails tecton_lookup_fails featureform_lookup_fails azureml_lookup_fails)

theorem lookup_exactly_once_witness:
  "(Map.empty(''driver_id'' \<mapsto> PyInt 1001, ''user_id'' \<mapsto> PyInt 1001, ''account_id'' \<mapsto> PyInt 1001)) ''driver_id'' = Some (PyInt 1001) \<and>
   feast_unreachable feast_features [Map.empty(''driver_id'' \<mapsto> PyInt 1001)] =
     Inl (ConnectionError ''feature server unreachable'') \<and>
   filter is_Lookup (calls (snd (FeastPromptTemplate_format (Map.empty(''driver_id'' \<mapsto> PyInt 1001, ''user_id'' \<mapsto> PyInt 1001, ''account_id'' \<mapsto> PyInt 1001))
       \<lparr>prompt = feast_prompt, store = feast_unreachable, calls = []\<rparr>))) =
     [Lookup (PyInt 1001)] \<and>
   fst (FeastPromptTemplate_format (Map.empty(''driver_id'' \<mapsto> PyInt 1001, ''user_id'' \<mapsto> PyInt 1001, ''account_id'' \<mapsto> PyInt 1001))
       \<lparr>prompt = feast_prompt, store = feast_unreachable, calls = []\<rparr>) =
     Inl (ConnectionError ''feature server unreachable'') \<and>
   (Map.empty(''driver_id'' \<mapsto> PyInt 1001, ''user_id'' \<mapsto> PyInt 1001, ''account_id'' \<mapsto> PyInt 1001)) ''user_id'' = Some (PyInt 1001) \<and>
   tecton_unreachable (Map.empty(''user_id'' \<mapsto> PyInt 1001)) =
     Inl (ConnectionError ''feature server unreachable'') \<and>
   filter is_Lookup (calls (snd (TectonPromptTemplate_format (Map.empty(''driver_id'' \<mapsto> PyInt 1001, ''user_id'' \<mapsto> PyInt 1001, ''account_id'' \<mapsto> PyInt 1001))
       \<lparr>prompt = tecton_prompt, store = tecton_unreachable, calls = []\<rparr>))) =
     [Lookup (PyInt 1001)] \<and>
   fst (TectonPromptTemplate_format (Map.empty(''driver_id'' \<mapsto> PyInt 1001, ''user_id'' \<mapsto> PyInt 1001, ''account_id'' \<mapsto> PyInt 1001))
       \<lparr>prompt = tecton_prompt, store = tecton_unreachable, calls = []\<rparr>) =
     Inl (ConnectionError ''feature server unreachable'') \<and>
   (Map.empty(''driver_id'' \<mapsto> PyInt 1001, ''user_id'' \<mapsto> PyInt 1001, ''account_id'' \<mapsto> PyInt 1001)) ''user_id'' = Some (PyInt 1001) \<and>
   featureform_unreachable [(''avg_transactions'', ''quickstart'')] (Map.empty(''user'' \<mapsto> PyInt 1001)) =
     Inl (ConnectionError ''feature server unreachable'') \<and>
   filter is_Lookup (calls (snd (FeatureformPromptTemplate_format (Map.empty(''driver_id'' \<mapsto> PyInt 1001, ''user_id'' \<mapsto> PyInt 1001, ''account_id'' \<mapsto> PyInt 1001))
       \<lparr>prompt = featureform_prompt, store = featureform_unreachable, calls = []\<rparr>))) =
     [Lookup (PyInt 1001)] \<and>
   fst (FeatureformPromptTemplate_format (Map.empty(''driver_id'' \<mapsto> PyInt 1001, ''user_id'' \<mapsto> PyInt 1001, ''account_id'' \<mapsto> PyInt 1001))
       \<lparr>prompt = featureform_prompt, store = featureform_unreachable, calls = []\<rparr>) =
     Inl (ConnectionError ''feature server unreachable'') \<and>
   (Map.empty(''driver_id'' \<mapsto> PyInt 1001, ''user_id'' \<mapsto> PyInt 1001, ''account_id'' \<mapsto> PyInt 1001)) ''account_id'' = Some (PyInt 1001) \<and>
   azureml_unreachable (Map.empty(''accountID'' \<mapsto> [PyInt 1001])) =
     Inl (ConnectionError ''feature server unreachable'') \<and>
   filter is_Lookup (calls (snd (AzureMLFeatureStorePromptTemplate_format (Map.empty(''driver_id'' \<mapsto> PyInt 1001, ''user_id'' \<mapsto> PyInt 1001, ''account_id'' \<mapsto> PyInt 1001))
       \<lparr>prompt = azureml_prompt, store = azureml_unreachable, calls = []\<rparr>))) =
     [Lookup (PyInt 1001)] \<and>
   fst (AzureMLFeatureStorePromptTemplate_format (Map.empty(''driver_id'' \<mapsto> PyInt 1001, ''user_id'' \<mapsto> PyInt 1001, ''account_id'' \<mapsto> PyInt 1001))
       \<lparr>prompt = azureml_prompt, store = azureml_unreachable, calls = []\<rparr>) =
     Inl (ConnectionError ''feature server unreachable'')"
  using lookup_exactly_once
    [of "(Map.empty(''driver_id'' \<mapsto> PyInt 1001, ''user_id'' \<mapsto> PyInt 1001, ''account_id'' \<mapsto> PyInt 1001))" "PyInt 1001"
        "\<lparr>prompt = feast_prompt, store = feast_unreachable, calls = []\<rparr>"
        "\<lparr>prompt = tecton_prompt, store = tecton_unreachable, calls = []\<rparr>"
        "\<lparr>prompt = featureform_prompt, store = featureform_unreachable, calls = []\<rparr>"
        "\<lparr>prompt = azureml_prompt, store = azureml_unreachable, calls = []\<rparr>"]
  by (simp add: feast_unreachable_def tecton_unreachable_def featureform_unreachable_def
        azureml_unreachable_def)

lemma feast_config:
  "prompt (snd (FeastPromptTemplate_format kwargs w)) = prompt w \<and>
   store (snd (FeastPromptTemplate_format kwargs w)) = store w"
  by (simp add: FeastPromptTemplate_format_def Let_def split: sum.splits prod.splits)

lemma feast_depends:
  assumes "prompt w' = prompt w"
    and "\<forall>driver_id. kwargs ''driver_id'' = Some driver_id \<longrightarrow>
      store w' feast_features [Map.empty(''driver_id'' \<mapsto> driver_id)] =
      store w feast_features [Map.empty(''driver_id'' \<mapsto> driver_id)]"
  shows "fst (FeastPromptTemplate_format kwargs w') = fst (FeastPromptTemplate_format kwargs w)"
proof (cases "kwargs ''driver_id''")
  case None
  then show ?thesis by (simp add: FeastPromptTemplate_format_def pop_def)
next
  case (Some driver_id)
  with assms(2) have "store w' feast_features [Map.empty(''driver_id'' \<mapsto> driver_id)] =
      store w feast_features [Map.empty(''driver_id'' \<mapsto> driver_id)]"
    by simp
  with Some assms(1) show ?thesis
    by (simp add: FeastPromptTemplate_format_def pop_def Let_def split: sum.splits)
qed

text \<open>
  C8. \<open>FeastPromptTemplate.format\<close> keeps nothing from one call to the next. A call
  returns the prompt and the store handle as it found them; a second call with the same
  keyword arguments, made in the state the first one left, returns what the first
  returned; and the output depends on the state only through the prompt and the result
  of the lookup for the given driver, so two calls that get the same lookup result
  return the same output whatever else the store holds and whatever calls came before.
\<close>

theorem feast_format_keeps_no_state:
  "prompt (snd (FeastPromptTemplate_format kwargs w)) = prompt w \<and>
   store (snd (FeastPromptTemplate_format kwargs w)) = store w \<and>
   fst (FeastPromptTemplate_format kwargs (snd (FeastPromptTemplate_format kwargs w))) =
     fst (FeastPromptTemplate_format kwargs w) \<and>
   (kwargs ''driver_id'' = Some driver_id \<and> prompt w' = prompt w \<and>
    store w' feast_features [Map.empty(''driver_id'' \<mapsto> driver_id)] =
      store w feast_features [Map.empty(''driver_id'' \<mapsto> driver_id)] \<longrightarrow>
      fst (FeastPromptTemplate_format kwargs w') = fst (FeastPromptTemplate_format kwargs w))"
proof (intro conjI impI)
  show "prompt (snd (FeastPromptTemplate_format kwargs w)) = prompt w"
    by (simp add: feast_config)
  show "store (snd (FeastPromptTemplate_format kwargs w)) = store w"
    by (simp add: feast_config)
  show "fst (FeastPromptTemplate_format kwargs (snd (FeastPromptTemplate_format kwargs w))) =
     fst (FeastPromptTemplate_format kwargs w)"
    by (rule feast_depends) (simp_all add: feast_config)
  assume "kwargs ''driver_id'' = Some driver_id \<and> prompt w' = prompt w \<and>
    store w' feast_features [Map.empty(''driver_id'' \<mapsto> driver_id)] =
      store w feast_features [Map.empty(''driver_id'' \<mapsto> driver_id)]"
  then show "fst (FeastPromptTemplate_format kwargs w') = fst (FeastPromptTemplate_format kwargs w)"
    by (intro feast_depends) auto
qed

theorem feast_format_keeps_no_state_witness:
  "(Map.empty(''driver_id'' \<mapsto> PyInt 1001)) ''driver_id'' = Some (PyInt 1001) \<and>
   prompt \<lparr>prompt = feast_prompt, store = driver_1001_only, calls = [Lookup (PyInt 7)]\<rparr> =
     prompt \<lparr>prompt = feast_prompt, store = driver_stats_columns, calls = []\<rparr> \<and>
   driver_1001_only feast_features [Map.empty(''driver_id'' \<mapsto> PyInt 1001)] =
     driver_stats_columns feast_features [Map.empty(''driver_id'' \<mapsto> PyInt 1001)] \<and>
   fst (FeastPromptTemplate_format (Map.empty(''driver_id'' \<mapsto> PyInt 1001))
          \<lparr>prompt = feast_prompt, store = driver_1001_only, calls = [Lookup (PyInt 7)]\<rparr>) =
     fst (FeastPromptTemplate_format (Map.empty(''driver_id'' \<mapsto> PyInt 1001))
          \<lparr>prompt = feast_prompt, store = driver_stats_columns, calls = []\<rparr>)"
proof -
  have h: "driver_1001_only feast_features [Map.empty(''driver_id'' \<mapsto> PyInt 1001)] =
     driver_stats_columns feast_features [Map.empty(''driver_id'' \<mapsto> PyInt 1001)]"
    by (simp add: driver_1001_only_def)
  from h feast_format_keeps_no_state
    [of "Map.empty(''driver_id'' \<mapsto> PyInt 1001)"
        "\<lparr>prompt = feast_prompt, store = driver_stats_columns, calls = []\<rparr>"
        "PyInt 1001"
        "\<lparr>prompt = feast_prompt, store = driver_1001_only, calls = [Lookup (PyInt 7)]\<rparr>"]
  show ?thesis by simp
qed

lemma feast_output:
  assumes "prompt w = feast_prompt" and "kwargs ''driver_id'' = Some driver_id"
    and "store w feast_features [Map.empty(''driver_id'' \<mapsto> driver_id)] = Inr feature_vector"
    and "getitem0 feature_vector ''conv_rate'' = Inr c"
    and "getitem0 feature_vector ''acc_rate'' = Inr a"
    and "getitem0 feature_vector ''avg_daily_trips'' = Inr t"
  shows "fst (FeastPromptTemplate_format kwargs w) =
     Inr (feast_intro @ str c @ [CHR 0x0A] @ ''Acceptance rate: '' @ str a @ [CHR 0x0A] @
          ''Average Daily Trips: '' @ str t @ [CHR 0x0A, CHR 0x0A] @ ''Your response:'')"
  using assms by (simp add: FeastPromptTemplate_format_def pop_def Let_def feast_format_prompt)

lemma driver_stats_columns_values:
  "getitem0 (Map.empty(''conv_rate'' \<mapsto> Column [PyFloat 47 2],
                       ''acc_rate'' \<mapsto> Column [PyFloat 6 2],
                       ''avg_daily_trips'' \<mapsto> Column [PyInt 936])) ''conv_rate'' = Inr (PyFloat 47 2)"
  "getitem0 (Map.empty(''conv_rate'' \<mapsto> Column [PyFloat 47 2],
                       ''acc_rate'' \<mapsto> Column [PyFloat 6 2],
                       ''avg_daily_trips'' \<mapsto> Column [PyInt 936])) ''acc_rate'' = Inr (PyFloat 6 2)"
  "getitem0 (Map.empty(''conv_rate'' \<mapsto> Column [PyFloat 47 2],
                       ''acc_rate'' \<mapsto> Column [PyFloat 6 2],
                       ''avg_daily_trips'' \<mapsto> Column [PyInt 936])) ''avg_daily_trips'' = Inr (PyInt 936)"
  by (simp_all add: getitem0_def getitem_def)

lemma str_examples:
  "str (PyFloat 47 2) = ''0.47''" "str (PyFloat 6 2) = ''0.06''" "str (PyInt 936) = ''936''"
  by (simp_all add: str_float_def str_int_def str_nat.simps)

text \<open>
  C5. With the three values given as a flat record, the Feast adapter fails:
  \<open>feature_vector["conv_rate"][0]\<close> subscripts the float \<open>0.47\<close>.
\<close>

theorem feast_flat_record_counterexample:
  "fst (FeastPromptTemplate_format (Map.empty(''driver_id'' \<mapsto> PyInt 1001))
         \<lparr>prompt = feast_prompt, store = driver_stats_flat, calls = []\<rparr>) =
   Inl (TypeError ''float object is not subscriptable'')"
  by (simp add: FeastPromptTemplate_format_def pop_def driver_stats_flat_def getitem0_def
        getitem_def)

text \<open>
  C5, amended. With the three values given the way Feast's \<open>to_dict()\<close> gives them, as
  columns holding one value each, the call for driver 1001 returns the pattern with
  \<open>{conv_rate}\<close>, \<open>{acc_rate}\<close> and \<open>{avg_daily_trips}\<close> replaced by \<open>0.47\<close>, \<open>0.06\<close> and
  \<open>936\<close>.
\<close>

theorem feast_driver_1001_output:
  "feast_template =
     feast_intro @ ''{conv_rate}'' @ [CHR 0x0A] @
     ''Acceptance rate: {acc_rate}'' @ [CHR 0x0A] @
     ''Average Daily Trips: {avg_daily_trips}'' @ [CHR 0x0A, CHR 0x0A] @ ''Your response:'' \<and>
   from_template feast_template = Inr feast_prompt \<and>
   fst (FeastPromptTemplate_format (Map.empty(''driver_id'' \<mapsto> PyInt 1001))
         \<lparr>prompt = feast_prompt, store = driver_stats_columns, calls = []\<rparr>) =
   Inr (feast_intro @ ''0.47'' @ [CHR 0x0A] @
        ''Acceptance rate: 0.06'' @ [CHR 0x0A] @
        ''Average Daily Trips: 936'' @ [CHR 0x0A, CHR 0x0A] @ ''Your response:'')"
proof (intro conjI)
  show "feast_template =
     feast_intro @ ''{conv_rate}'' @ [CHR 0x0A] @
     ''Acceptance rate: {acc_rate}'' @ [CHR 0x0A] @
     ''Average Daily Trips: {avg_daily_trips}'' @ [CHR 0x0A, CHR 0x0A] @ ''Your response:''"
    by (simp add: feast_template_def)
  show "from_template feast_template = Inr feast_prompt"
    by (rule feast_prompt_built)
  have st: "store \<lparr>prompt = feast_prompt, store = driver_stats_columns, calls = []\<rparr>
       feast_features [Map.empty(''driver_id'' \<mapsto> PyInt 1001)] =
     Inr (Map.empty(''conv_rate'' \<mapsto> Column [PyFloat 47 2],
                    ''acc_rate'' \<mapsto> Column [PyFloat 6 2],
                    ''avg_daily_trips'' \<mapsto> Column [PyInt 936]))"
    by (simp add: driver_stats_columns_def)
  have "fst (FeastPromptTemplate_format (Map.empty(''driver_id'' \<mapsto> PyInt 1001))
         \<lparr>prompt = feast_prompt, store = driver_stats_columns, calls = []\<rparr>) =
     Inr (feast_intro @ str (PyFloat 47 2) @ [CHR 0x0A] @ ''Acceptance rate: '' @
          str (PyFloat 6 2) @ [CHR 0x0A] @
          ''Average Daily Trips: '' @ str (PyInt 936) @ [CHR 0x0A, CHR 0x0A] @ ''Your response:'')"
    by (rule feast_output [OF _ _ st driver_stats_columns_values]) simp_all
  then show "fst (FeastPromptTemplate_format (Map.empty(''driver_id'' \<mapsto> PyInt 1001))
         \<lparr>prompt = feast_prompt, store = driver_stats_columns, calls = []\<rparr>) =
   Inr (feast_intro @ ''0.47'' @ [CHR 0x0A] @
        ''Acceptance rate: 0.06'' @ [CHR 0x0A] @
        ''Average Daily Trips: 936'' @ [CHR 0x0A, CHR 0x0A] @ ''Your response:'')"
    unfolding str_examples by simp
qed

lemma feast_merge_overwrites:
  "key \<in> {''conv_rate'', ''acc_rate'', ''avg_daily_trips''} \<Longrightarrow>
   ((kwargs(key \<mapsto> v))(''driver_id'' := None))
      (''conv_rate'' \<mapsto> c, ''acc_rate'' \<mapsto> a, ''avg_daily_trips'' \<mapsto> t) =
   (kwargs(''driver_id'' := None))
      (''conv_rate'' \<mapsto> c, ''acc_rate'' \<mapsto> a, ''avg_daily_trips'' \<mapsto> t)"
  by (rule ext) auto

lemma feast_overwrite:
  assumes "key \<in> {''conv_rate'', ''acc_rate'', ''avg_daily_trips''}"
  shows "FeastPromptTemplate_format (kwargs(key \<mapsto> v)) w = FeastPromptTemplate_format kwargs w"
proof -
  from assms have k: "key \<noteq> ''driver_id''" by auto
  show ?thesis
  proof (cases "kwargs ''driver_id''")
    case None
    with k show ?thesis by (simp add: FeastPromptTemplate_format_def pop_def)
  next
    case (Some driver_id)
    with k show ?thesis
      by (simp add: FeastPromptTemplate_format_def pop_def Let_def feast_merge_overwrites [OF assms]
               split: sum.splits)
  qed
qed

text \<open>
  C6. A value the caller passes for \<open>conv_rate\<close>, \<open>acc_rate\<close> or \<open>avg_daily_trips\<close> has no
  effect on the call: the result and the calls made, among them the keyword arguments
  the prompt receives, are those of the call without it. When the lookup gives the
  three values, the output is the pattern filled with the looked-up values.
\<close>

theorem feast_lookup_overrides_caller:
  "(key \<in> {''conv_rate'', ''acc_rate'', ''avg_daily_trips''} \<longrightarrow>
      FeastPromptTemplate_format (kwargs(key \<mapsto> v)) w = FeastPromptTemplate_format kwargs w) \<and>
   (key \<in> {''conv_rate'', ''acc_rate'', ''avg_daily_trips''} \<and>
    from_template feast_template = Inr (prompt w) \<and> kwargs ''driver_id'' = Some driver_id \<and>
    store w feast_features [Map.empty(''driver_id'' \<mapsto> driver_id)] = Inr feature_vector \<and>
    getitem0 feature_vector ''conv_rate'' = Inr c \<and>
    getitem0 feature_vector ''acc_rate'' = Inr a \<and>
    getitem0 feature_vector ''avg_daily_trips'' = Inr t \<longrightarrow>
      fst (FeastPromptTemplate_format (kwargs(key \<mapsto> v)) w) =
        Inr (feast_intro @ str c @ [CHR 0x0A] @ ''Acceptance rate: '' @ str a @ [CHR 0x0A] @
             ''Average Daily Trips: '' @ str t @ [CHR 0x0A, CHR 0x0A] @ ''Your response:''))"
proof (intro conjI impI)
  assume "key \<in> {''conv_rate'', ''acc_rate'', ''avg_daily_trips''}"
  then show "FeastPromptTemplate_format (kwargs(key \<mapsto> v)) w = FeastPromptTemplate_format kwargs w"
    by (rule feast_overwrite)
next
  assume h: "key \<in> {''conv_rate'', ''acc_rate'', ''avg_daily_trips''} \<and>
    from_template feast_template = Inr (prompt w) \<and> kwargs ''driver_id'' = Some driver_id \<and>
    store w feast_features [Map.empty(''driver_id'' \<mapsto> driver_id)] = Inr feature_vector \<and>
    getitem0 feature_vector ''conv_rate'' = Inr c \<and>
    getitem0 feature_vector ''acc_rate'' = Inr a \<and>
    getitem0 feature_vector ''avg_daily_trips'' = Inr t"
  then have "fst (FeastPromptTemplate_format kwargs w) =
        Inr (feast_intro @ str c @ [CHR 0x0A] @ ''Acceptance rate: '' @ str a @ [CHR 0x0A] @
             ''Average Daily Trips: '' @ str t @ [CHR 0x0A, CHR 0x0A] @ ''Your response:'')"
    by (intro feast_output) (auto simp: feast_prompt_built)
  with h show "fst (FeastPromptTemplate_format (kwargs(key \<mapsto> v)) w) =
        Inr (feast_intro @ str c @ [CHR 0x0A] @ ''Acceptance rate: '' @ str a @ [CHR 0x0A] @
             ''Average Daily Trips: '' @ str t @ [CHR 0x0A, CHR 0x0A] @ ''Your response:'')"
    by (simp add: feast_overwrite)
qed

theorem feast_lookup_overrides_caller_witness:
  "''conv_rate'' \<in> {''conv_rate'', ''acc_rate'', ''avg_daily_trips''} \<and>
   from_template feast_template =
     Inr (prompt \<lparr>prompt = feast_prompt, store = driver_stats_columns, calls = []\<rparr>) \<and>
   (Map.empty(''driver_id'' \<mapsto> PyInt 1001)) ''driver_id'' = Some (PyInt 1001) \<and>
   driver_stats_columns feast_features [Map.empty(''driver_id'' \<mapsto> PyInt 1001)] =
     Inr (Map.empty(''conv_rate'' \<mapsto> Column [PyFloat 47 2],
                    ''acc_rate'' \<mapsto> Column [PyFloat 6 2],
                    ''avg_daily_trips'' \<mapsto> Column [PyInt 936])) \<and>
   fst (FeastPromptTemplate_format
          (Map.empty(''driver_id'' \<mapsto> PyInt 1001, ''conv_rate'' \<mapsto> PyStr ''0.99''))
          \<lparr>prompt = feast_prompt, store = driver_stats_columns, calls = []\<rparr>) =
     Inr (feast_intro @ ''0.47'' @ [CHR 0x0A] @
          ''Acceptance rate: 0.06'' @ [CHR 0x0A] @
          ''Average Daily Trips: 936'' @ [CHR 0x0A, CHR 0x0A] @ ''Your response:'')"
proof -
  have s: "driver_stats_columns feast_features [Map.empty(''driver_id'' \<mapsto> PyInt 1001)] =
     Inr (Map.empty(''conv_rate'' \<mapsto> Column [PyFloat 47 2],
                    ''acc_rate'' \<mapsto> Column [PyFloat 6 2],
                    ''avg_daily_trips'' \<mapsto> Column [PyInt 936]))"
    by (simp add: driver_stats_columns_def)
  from s feast_lookup_overrides_caller
    [of "''conv_rate''" "Map.empty(''driver_id'' \<mapsto> PyInt 1001)" "PyStr ''0.99''"
        "\<lparr>prompt = feast_prompt, store = driver_stats_columns, calls = []\<rparr>"
        "PyInt 1001"
        "Map.empty(''conv_rate'' \<mapsto> Column [PyFloat 47 2],
                   ''acc_rate'' \<mapsto> Column [PyFloat 6 2],
                   ''avg_daily_trips'' \<mapsto> Column [PyInt 936])"
        "PyFloat 47 2" "PyFloat 6 2" "PyInt 936", THEN conjunct2]
  show ?thesis
    by (simp add: feast_prompt_built driver_stats_columns_values str_float_def str_int_def
          str_nat.simps)
qed

lemma featureform_format_prompt:
  "PromptTemplate_format featureform_prompt kwargs =
     (case kwargs ''avg_transcation'' of
        None \<Rightarrow> Inl (KeyError (PyStr ''avg_transcation''))
      | Some v \<Rightarrow> Inr (featureform_intro @ str v @ [CHR 0x0A, CHR 0x0A] @ ''Your response:''))"
  by (simp add: featureform_prompt_def split: option.splits)

lemma featureform_fails:
  assumes "prompt w = featureform_prompt" and "kwargs ''avg_transcation'' = None"
  shows "\<exists>e. fst (FeatureformPromptTemplate_format kwargs w) = Inl e"
  using assms
  by (auto simp: FeatureformPromptTemplate_format_def pop_def Let_def featureform_format_prompt
           split: option.splits sum.splits)

lemma featureform_missing_key:
  assumes "prompt w = featureform_prompt" and "kwargs ''avg_transcation'' = None"
    and "kwargs ''user_id'' = Some user_id"
    and "store w [(''avg_transactions'', ''quickstart'')] (Map.empty(''user'' \<mapsto> user_id)) = Inr fpf"
  shows "FeatureformPromptTemplate_format kwargs w =
     (Inl (KeyError (PyStr ''avg_transcation'')),
      w\<lparr>calls := calls w @ [Lookup user_id, TemplateFormat (kwargs(''user_id'' := None))]\<rparr>)"
  using assms
  by (simp add: FeatureformPromptTemplate_format_def pop_def Let_def featureform_format_prompt)

text \<open>
  C9. \<open>FeatureformPromptTemplate.format\<close> does not fail on every input: the caller can
  pass \<open>avg_transcation\<close> along with \<open>user_id\<close>, and then the call returns the text.
\<close>

theorem featureform_caller_supplied_counterexample:
  "fst (FeatureformPromptTemplate_format
          (Map.empty(''user_id'' \<mapsto> PyStr ''C1410926'', ''avg_transcation'' \<mapsto> PyInt 25))
          \<lparr>prompt = featureform_prompt, store = featureform_quickstart, calls = []\<rparr>) =
   Inr (featureform_intro @ ''25'' @ [CHR 0x0A, CHR 0x0A] @ ''Your response:'')"
  by (simp add: FeatureformPromptTemplate_format_def pop_def featureform_quickstart_def
        featureform_format_prompt str_int_def str_nat.simps)

text \<open>
  C9, amended. A call in which the caller does not pass \<open>avg_transcation\<close> always
  fails. When \<open>user_id\<close> is present and the lookup succeeds, the calls made are the lookup
  and the prompt's \<open>format\<close>, which receives the caller's keyword arguments without
  \<open>user_id\<close> and nothing of what was looked up, and fails with the missing-key error for
  \<open>avg_transcation\<close>.
\<close>

theorem featureform_never_merges:
  assumes "from_template featureform_template = Inr (prompt w)"
    and "kwargs ''avg_transcation'' = None"
  shows "(\<exists>e. fst (FeatureformPromptTemplate_format kwargs w) = Inl e) \<and>
         (\<forall>user_id fpf.
            kwargs ''user_id'' = Some user_id \<and>
            store w [(''avg_transactions'', ''quickstart'')] (Map.empty(''user'' \<mapsto> user_id)) =
              Inr fpf \<longrightarrow>
            FeatureformPromptTemplate_format kwargs w =
              (Inl (KeyError (PyStr ''avg_transcation'')),
               w\<lparr>calls := calls w @
                  [Lookup user_id, TemplateFormat (kwargs(''user_id'' := None))]\<rparr>))"
proof -
  from assms(1) have p: "prompt w = featureform_prompt"
    by (simp add: featureform_prompt_built)
  from p assms(2) have "\<exists>e. fst (FeatureformPromptTemplate_format kwargs w) = Inl e"
    by (rule featureform_fails)
  moreover from p assms(2) have "\<forall>user_id fpf.
            kwargs ''user_id'' = Some user_id \<and>
            store w [(''avg_transactions'', ''quickstart'')] (Map.empty(''user'' \<mapsto> user_id)) =
              Inr fpf \<longrightarrow>
            FeatureformPromptTemplate_format kwargs w =
              (Inl (KeyError (PyStr ''avg_transcation'')),
               w\<lparr>calls := calls w @
                  [Lookup user_id, TemplateFormat (kwargs(''user_id'' := None))]\<rparr>)"
    by (simp add: featureform_missing_key)
  ultimately show ?thesis by (rule conjI)
qed

theorem featureform_never_merges_witness:
  "from_template featureform_template =
     Inr (prompt \<lparr>prompt = featureform_prompt, store = featureform_quickstart, calls = []\<rparr>) \<and>
   (Map.empty(''user_id'' \<mapsto> PyStr ''C1410926'')) ''avg_transcation'' = None \<and>
   (Map.empty(''user_id'' \<mapsto> PyStr ''C1410926'')) ''user_id'' = Some (PyStr ''C1410926'') \<and>
   featureform_quickstart [(''avg_transactions'', ''quickstart'')]
       (Map.empty(''user'' \<mapsto> PyStr ''C1410926'')) = Inr [PyFloat 25 0] \<and>
   fst (FeatureformPromptTemplate_format (Map.empty(''user_id'' \<mapsto> PyStr ''C1410926''))
          \<lparr>prompt = featureform_prompt, store = featureform_quickstart, calls = []\<rparr>) =
     Inl (KeyError (PyStr ''avg_transcation''))"
proof -
  have h1: "from_template featureform_template =
     Inr (prompt \<lparr>prompt = featureform_prompt, store = featureform_quickstart, calls = []\<rparr>)"
    by (simp add: featureform_prompt_built)
  have h2: "(Map.empty(''user_id'' \<mapsto> PyStr ''C1410926'')) ''avg_transcation'' = None"
    by simp
  have h3: "(Map.empty(''user_id'' \<mapsto> PyStr ''C1410926'')) ''user_id'' = Some (PyStr ''C1410926'')"
    by simp
  have h4: "featureform_quickstart [(''avg_transactions'', ''quickstart'')]
       (Map.empty(''user'' \<mapsto> PyStr ''C1410926'')) = Inr [PyFloat 25 0]"
    by (simp add: featureform_quickstart_def)
  from h1 h2 h3 h4 featureform_never_merges
    [of "\<lparr>prompt = featureform_prompt, store = featureform_quickstart, calls = []\<rparr>"
        "Map.empty(''user_id'' \<mapsto> PyStr ''C1410926'')"]
  have "fst (FeatureformPromptTemplate_format (Map.empty(''user_id'' \<mapsto> PyStr ''C1410926''))
          \<lparr>prompt = featureform_prompt, store = featureform_quickstart, calls = []\<rparr>) =
     Inl (KeyError (PyStr ''avg_transcation''))"
    by simp
  with h1 h2 h3 h4 show ?thesis by (intro conjI)
qed

lemma azureml_format_prompt:
  "PromptTemplate_format azureml_prompt
     (kwargs(''query'' \<mapsto> q, ''account_id'' \<mapsto> i, ''account_age'' \<mapsto> a,
             ''account_country'' \<mapsto> c, ''payment_rejects_1d_per_user'' \<mapsto> r)) =
   Inr ([CHR 0x0A] @ azureml_indent @ str q @ [CHR 0x0A] @
        azureml_indent @ ''###'' @ [CHR 0x0A] @
        azureml_indent @ ''account id = '' @ str i @ [CHR 0x0A] @
        azureml_indent @ ''account age = '' @ str a @ [CHR 0x0A] @
        azureml_indent @ ''account country = '' @ str c @ [CHR 0x0A] @
        azureml_indent @ ''payment rejects 1d per user = '' @ str r @ [CHR 0x0A] @
        azureml_indent @ ''###'' @ [CHR 0x0A] @
        azureml_indent)"
  by (simp add: azureml_prompt_def)

lemma azureml_output:
  assumes "prompt w = azureml_prompt" and "kwargs ''account_id'' = Some account_id"
    and "store w (Map.empty(''accountID'' \<mapsto> [account_id])) = Inr df"
    and "row0 df ''accountAge'' = Inr account_age"
    and "row0 df ''accountCountry'' = Inr account_country"
    and "row0 df ''numPaymentRejects1dPerUser'' = Inr rejects"
  shows "fst (AzureMLFeatureStorePromptTemplate_format kwargs w) =
   Inr ([CHR 0x0A] @ azureml_indent @
        (case kwargs ''query'' of None \<Rightarrow> [] | Some q \<Rightarrow> str q) @ [CHR 0x0A] @
        azureml_indent @ ''###'' @ [CHR 0x0A] @
        azureml_indent @ ''account id = '' @ str account_id @ [CHR 0x0A] @
        azureml_indent @ ''account age = '' @ str account_age @ [CHR 0x0A] @
        azureml_indent @ ''account country = '' @ str account_country @ [CHR 0x0A] @
        azureml_indent @ ''payment rejects 1d per user = '' @ str rejects @ [CHR 0x0A] @
        azureml_indent @ ''###'' @ [CHR 0x0A] @
        azureml_indent)"
proof (cases "kwargs ''query''")
  case None
  with assms show ?thesis
    by (simp add: AzureMLFeatureStorePromptTemplate_format_def pop_def Let_def
          azureml_format_prompt)
next
  case (Some q)
  with assms show ?thesis
    by (simp add: AzureMLFeatureStorePromptTemplate_format_def pop_def Let_def
          azureml_format_prompt)
qed

lemma azureml_query_default:
  assumes "kwargs ''query'' = None"
  shows "AzureMLFeatureStorePromptTemplate_format kwargs w =
         AzureMLFeatureStorePromptTemplate_format (kwargs(''query'' \<mapsto> PyStr [])) w"
proof -
  have "(kwargs(''query'' \<mapsto> PyStr [], ''account_id'' := None, ''query'' := None)) =
        kwargs(''account_id'' := None)"
    using assms by (auto simp: fun_eq_iff)
  then show ?thesis using assms
    by (simp add: AzureMLFeatureStorePromptTemplate_format_def pop_def Let_def split: option.splits)
qed

text \<open>
  C10. \<open>AzureMLFeatureStorePromptTemplate.format\<close> treats \<open>query\<close> as optional. A call
  without \<open>query\<close> behaves in every respect as the call with \<open>query\<close> set to the empty
  string. When \<open>account_id\<close> is present and the lookup gives the three feature values,
  the call succeeds either way, and the text it returns has at \<open>{query}\<close> the empty
  string when \<open>query\<close> is absent and \<open>str\<close> of the caller's value, which for a string is
  the string itself, when it is present.
\<close>

theorem azureml_query_optional:
  "(kwargs ''query'' = None \<longrightarrow>
      AzureMLFeatureStorePromptTemplate_format kwargs w =
      AzureMLFeatureStorePromptTemplate_format (kwargs(''query'' \<mapsto> PyStr [])) w) \<and>
   (from_template azureml_template = Inr (prompt w) \<and>
    kwargs ''account_id'' = Some account_id \<and>
    store w (Map.empty(''accountID'' \<mapsto> [account_id])) = Inr df \<and>
    row0 df ''accountAge'' = Inr account_age \<and>
    row0 df ''accountCountry'' = Inr account_country \<and>
    row0 df ''numPaymentRejects1dPerUser'' = Inr rejects \<longrightarrow>
      fst (AzureMLFeatureStorePromptTemplate_format kwargs w) =
        Inr ([CHR 0x0A] @ azureml_indent @
             (case kwargs ''query'' of None \<Rightarrow> [] | Some q \<Rightarrow> str q) @ [CHR 0x0A] @
             azureml_indent @ ''###'' @ [CHR 0x0A] @
             azureml_indent @ ''account id = '' @ str account_id @ [CHR 0x0A] @
             azureml_indent @ ''account age = '' @ str account_age @ [CHR 0x0A] @
             azureml_indent @ ''account country = '' @ str account_country @ [CHR 0x0A] @
             azureml_indent @ ''payment rejects 1d per user = '' @ str rejects @ [CHR 0x0A] @
             azureml_indent @ ''###'' @ [CHR 0x0A] @
             azureml_indent))"
proof (intro conjI impI)
  assume "kwargs ''query'' = None"
  then show "AzureMLFeatureStorePromptTemplate_format kwargs w =
      AzureMLFeatureStorePromptTemplate_format (kwargs(''query'' \<mapsto> PyStr [])) w"
    by (rule azureml_query_default)
next
  assume h: "from_template azureml_template = Inr (prompt w) \<and>
    kwargs ''account_id'' = Some account_id \<and>
    store w (Map.empty(''accountID'' \<mapsto> [account_id])) = Inr df \<and>
    row0 df ''accountAge'' = Inr account_age \<and>
    row0 df ''accountCountry'' = Inr account_country \<and>
    row0 df ''numPaymentRejects1dPerUser'' = Inr rejects"
  then show "fst (AzureMLFeatureStorePromptTemplate_format kwargs w) =
        Inr ([CHR 0x0A] @ azureml_indent @
             (case kwargs ''query'' of None \<Rightarrow> [] | Some q \<Rightarrow> str q) @ [CHR 0x0A] @
             azureml_indent @ ''###'' @ [CHR 0x0A] @
             azureml_indent @ ''account id = '' @ str account_id @ [CHR 0x0A] @
             azureml_indent @ ''account age = '' @ str account_age @ [CHR 0x0A] @
             azureml_indent @ ''account country = '' @ str account_country @ [CHR 0x0A] @
             azureml_indent @ ''payment rejects 1d per user = '' @ str rejects @ [CHR 0x0A] @
             azureml_indent @ ''###'' @ [CHR 0x0A] @
             azureml_indent)"
    by (intro azureml_output) (auto simp: azureml_prompt_built)
qed

theorem azureml_query_optional_witness:
  "(Map.empty(''account_id'' \<mapsto> PyStr ''A1829581630230790'')) ''query'' = None \<and>
   from_template azureml_template =
     Inr (prompt \<lparr>prompt = azureml_prompt, store = accounts_frame, calls = []\<rparr>) \<and>
   (Map.empty(''account_id'' \<mapsto> PyStr ''A1829581630230790'')) ''account_id'' = Some (PyStr ''A1829581630230790'') \<and>
   accounts_frame (Map.empty(''accountID'' \<mapsto> [PyStr ''A1829581630230790''])) =
     Inr (Map.empty(''accountAge'' \<mapsto> [PyFloat 563 0],
                    ''accountCountry'' \<mapsto> [PyStr ''GB''],
                    ''numPaymentRejects1dPerUser'' \<mapsto> [PyFloat 15 0])) \<and>
   row0 (Map.empty(''accountAge'' \<mapsto> [PyFloat 563 0],
                    ''accountCountry'' \<mapsto> [PyStr ''GB''],
                    ''numPaymentRejects1dPerUser'' \<mapsto> [PyFloat 15 0])) ''accountAge'' = Inr (PyFloat 563 0) \<and>
   row0 (Map.empty(''accountAge'' \<mapsto> [PyFloat 563 0],
                    ''accountCountry'' \<mapsto> [PyStr ''GB''],
                    ''numPaymentRejects1dPerUser'' \<mapsto> [PyFloat 15 0])) ''accountCountry'' = Inr (PyStr ''GB'') \<and>
   row0 (Map.empty(''accountAge'' \<mapsto> [PyFloat 563 0],
                    ''accountCountry'' \<mapsto> [PyStr ''GB''],
                    ''numPaymentRejects1dPerUser'' \<mapsto> [PyFloat 15 0])) ''numPaymentRejects1dPerUser'' = Inr (PyFloat 15 0) \<and>
   fst (AzureMLFeatureStorePromptTemplate_format (Map.empty(''account_id'' \<mapsto> PyStr ''A1829581630230790''))
          \<lparr>prompt = azureml_prompt, store = accounts_frame, calls = []\<rparr>) =
     Inr ([CHR 0x0A] @ azureml_indent @ [] @ [CHR 0x0A] @
          azureml_indent @ ''###'' @ [CHR 0x0A] @
          azureml_indent @ ''account id = A1829581630230790'' @ [CHR 0x0A] @
          azureml_indent @ ''account age = 563.0'' @ [CHR 0x0A] @
          azureml_indent @ ''account country = GB'' @ [CHR 0x0A] @
          azureml_indent @ ''payment rejects 1d per user = 15.0'' @ [CHR 0x0A] @
          azureml_indent @ ''###'' @ [CHR 0x0A] @
          azureml_indent) \<and>
   fst (AzureMLFeatureStorePromptTemplate_format (Map.empty(''account_id'' \<mapsto> PyStr ''A1829581630230790'', ''query'' \<mapsto> PyStr ''write a small thank you note''))
          \<lparr>prompt = azureml_prompt, store = accounts_frame, calls = []\<rparr>) =
     Inr ([CHR 0x0A] @ azureml_indent @ ''write a small thank you note'' @ [CHR 0x0A] @
          azureml_indent @ ''###'' @ [CHR 0x0A] @
          azureml_indent @ ''account id = A1829581630230790'' @ [CHR 0x0A] @
          azureml_indent @ ''account age = 563.0'' @ [CHR 0x0A] @
          azureml_indent @ ''account country = GB'' @ [CHR 0x0A] @
          azureml_indent @ ''payment rejects 1d per user = 15.0'' @ [CHR 0x0A] @
          azureml_indent @ ''###'' @ [CHR 0x0A] @
          azureml_indent)"
proof -
  have h1: "(Map.empty(''account_id'' \<mapsto> PyStr ''A1829581630230790'')) ''query'' = None"
    by simp
  have h2: "from_template azureml_template =
     Inr (prompt \<lparr>prompt = azureml_prompt, store = accounts_frame, calls = []\<rparr>)"
    by (simp add: azureml_prompt_built)
  have h3: "(Map.empty(''account_id'' \<mapsto> PyStr ''A1829581630230790'')) ''account_id'' = Some (PyStr ''A1829581630230790'')"
    by simp
  have h4: "accounts_frame (Map.empty(''accountID'' \<mapsto> [PyStr ''A1829581630230790''])) =
     Inr (Map.empty(''accountAge'' \<mapsto> [PyFloat 563 0],
                    ''accountCountry'' \<mapsto> [PyStr ''GB''],
                    ''numPaymentRejects1dPerUser'' \<mapsto> [PyFloat 15 0]))"
    by (simp add: accounts_frame_def)
  have h5: "row0 (Map.empty(''accountAge'' \<mapsto> [PyFloat 563 0],
                    ''accountCountry'' \<mapsto> [PyStr ''GB''],
                    ''numPaymentRejects1dPerUser'' \<mapsto> [PyFloat 15 0])) ''accountAge'' = Inr (PyFloat 563 0)"
    by (simp add: row0_def getitem_def)
  have h6: "row0 (Map.empty(''accountAge'' \<mapsto> [PyFloat 563 0],
                    ''accountCountry'' \<mapsto> [PyStr ''GB''],
                    ''numPaymentRejects1dPerUser'' \<mapsto> [PyFloat 15 0])) ''accountCountry'' = Inr (PyStr ''GB'')"
    by (simp add: row0_def getitem_def)
  have h7: "row0 (Map.empty(''accountAge'' \<mapsto> [PyFloat 563 0],
                    ''accountCountry'' \<mapsto> [PyStr ''GB''],
                    ''numPaymentRejects1dPerUser'' \<mapsto> [PyFloat 15 0])) ''numPaymentRejects1dPerUser'' = Inr (PyFloat 15 0)"
    by (simp add: row0_def getitem_def)
  from h2 h3 h4 h5 h6 h7 azureml_query_optional
    [of "(Map.empty(''account_id'' \<mapsto> PyStr ''A1829581630230790''))"
        "\<lparr>prompt = azureml_prompt, store = accounts_frame, calls = []\<rparr>"
        "PyStr ''A1829581630230790''"
        "(Map.empty(''accountAge'' \<mapsto> [PyFloat 563 0],
                    ''accountCountry'' \<mapsto> [PyStr ''GB''],
                    ''numPaymentRejects1dPerUser'' \<mapsto> [PyFloat 15 0]))"
        "PyFloat 563 0" "PyStr ''GB''" "PyFloat 15 0", THEN conjunct2]
  have c1: "fst (AzureMLFeatureStorePromptTemplate_format (Map.empty(''account_id'' \<mapsto> PyStr ''A1829581630230790''))
          \<lparr>prompt = azureml_prompt, store = accounts_frame, calls = []\<rparr>) =
     Inr ([CHR 0x0A] @ azureml_indent @ [] @ [CHR 0x0A] @
          azureml_indent @ ''###'' @ [CHR 0x0A] @
          azureml_indent @ ''account id = A1829581630230790'' @ [CHR 0x0A] @
          azureml_indent @ ''account age = 563.0'' @ [CHR 0x0A] @
          azureml_indent @ ''account country = GB'' @ [CHR 0x0A] @
          azureml_indent @ ''payment rejects 1d per user = 15.0'' @ [CHR 0x0A] @
          azureml_indent @ ''###'' @ [CHR 0x0A] @
          azureml_indent)"
    by (simp add: str_float_def str_nat.simps)
  have h3q: "(Map.empty(''account_id'' \<mapsto> PyStr ''A1829581630230790'', ''query'' \<mapsto> PyStr ''write a small thank you note'')) ''account_id'' = Some (PyStr ''A1829581630230790'')"
    by simp
  from h2 h3q h4 h5 h6 h7 azureml_query_optional
    [of "(Map.empty(''account_id'' \<mapsto> PyStr ''A1829581630230790'', ''query'' \<mapsto> PyStr ''write a small thank you note''))"
        "\<lparr>prompt = azureml_prompt, store = accounts_frame, calls = []\<rparr>"
        "PyStr ''A1829581630230790''"
        "(Map.empty(''accountAge'' \<mapsto> [PyFloat 563 0],
                    ''accountCountry'' \<mapsto> [PyStr ''GB''],
                    ''numPaymentRejects1dPerUser'' \<mapsto> [PyFloat 15 0]))"
        "PyFloat 563 0" "PyStr ''GB''" "PyFloat 15 0", THEN conjunct2]
  have c2: "fst (AzureMLFeatureStorePromptTemplate_format (Map.empty(''account_id'' \<mapsto> PyStr ''A1829581630230790'', ''query'' \<mapsto> PyStr ''write a small thank you note''))
          \<lparr>prompt = azureml_prompt, store = accounts_frame, calls = []\<rparr>) =
     Inr ([CHR 0x0A] @ azureml_indent @ ''write a small thank you note'' @ [CHR 0x0A] @
          azureml_indent @ ''###'' @ [CHR 0x0A] @
          azureml_indent @ ''account id = A1829581630230790'' @ [CHR 0x0A] @
          azureml_indent @ ''account age = 563.0'' @ [CHR 0x0A] @
          azureml_indent @ ''account country = GB'' @ [CHR 0x0A] @
          azureml_indent @ ''payment rejects 1d per user = 15.0'' @ [CHR 0x0A] @
          azureml_indent @ ''###'' @ [CHR 0x0A] @
          azureml_indent)"
    by (simp add: str_float_def str_nat.simps)
  from h1 h2 h3 h4 h5 h6 h7 c1 c2 show ?thesis by (intro conjI)
qed

end
